theory Spec2Isabelle
  imports Main "HOL-Library.Product_Lexorder" "HOL-Library.Sublist"
begin

section \<open>Python values shared by the modules\<close>

text \<open>
  A Python \<open>str\<close> is a \<open>string\<close>; each \<open>char\<close> stands for the code point of the same
  number, so the model covers the strings whose code points are below 256. The line feed
  is \<open>CHR 0x0A\<close>.

  An exception is a value of \<open>error\<close>: the class that is raised. Messages are not
  modelled. \<open>OtherError\<close> stands for every class that is not named (\<open>KeyError\<close>,
  \<open>AttributeError\<close>, an HTTP error, ...).
\<close>

datatype error = ValueError | TypeError | TextToSpeechError | TextToImageError | OtherError

type_synonym bytes = "nat list"

text \<open>
  \<open>str.isspace\<close> on one character, for code points below 256: the ASCII white space
  9..13 and 32, the separators 28..31, NEL (133) and the no-break space (160).
\<close>

definition py_isspace :: "char \<Rightarrow> bool" where
  "py_isspace c = ((of_char c :: nat) \<in> {9, 10, 11, 12, 13, 28, 29, 30, 31, 32, 133, 160})"

text \<open>\<open>str.strip()\<close>: white space removed at both ends.\<close>

definition py_strip :: "string \<Rightarrow> string" where
  "py_strip s = rev (dropWhile py_isspace (rev (dropWhile py_isspace s)))"

text \<open>\<open>s.split(sep)\<close> for a separator of one character: cut at every occurrence.\<close>

fun py_split :: "char \<Rightarrow> string \<Rightarrow> string list" where
  "py_split sep [] = [[]]"
| "py_split sep (c # cs) =
     (if c = sep then [] # py_split sep cs
      else (case py_split sep cs of
              [] \<Rightarrow> [[c]]
            | p # ps \<Rightarrow> (c # p) # ps))"


section \<open>Schedules: \<open>modules/schedules/context_generation.py\<close>\<close>

text \<open>
  \<open>datetime.time\<close> with no time zone. Python orders two such times by the tuple
  (hour, minute, second, microsecond).
\<close>

record py_time =
  hour :: nat
  minute :: nat
  second :: nat
  microsecond :: nat

definition time_key :: "py_time \<Rightarrow> nat \<times> nat \<times> nat \<times> nat" where
  "time_key t = (hour t, minute t, second t, microsecond t)"

definition time_le :: "py_time \<Rightarrow> py_time \<Rightarrow> bool" where
  "time_le a b = (time_key a \<le> time_key b)"

definition time_gt :: "py_time \<Rightarrow> py_time \<Rightarrow> bool" where
  "time_gt a b = (time_key a > time_key b)"

definition is_digit :: "char \<Rightarrow> bool" where
  "is_digit c = (48 \<le> (of_char c :: nat) \<and> (of_char c :: nat) \<le> 57)"

definition digit_val :: "char \<Rightarrow> nat" where
  "digit_val c = of_char c - 48"

text \<open>
  The directive \<open>%H\<close> of \<open>strptime\<close> is the pattern \<open>2[0-3]|[0-1]\d|\d\<close> and \<open>%M\<close> is
  \<open>[0-5]\d|\d\<close>; the whole string has to be consumed. The hour holds digits only, so the
  colon of the format is the first colon of the string.
\<close>

fun match_H :: "string \<Rightarrow> nat option" where
  "match_H [a] = (if is_digit a then Some (digit_val a) else None)"
| "match_H [a, b] =
     (if (a = CHR ''2'' \<and> is_digit b \<and> digit_val b \<le> 3) \<or>
         ((a = CHR ''0'' \<or> a = CHR ''1'') \<and> is_digit b)
      then Some (10 * digit_val a + digit_val b) else None)"
| "match_H _ = None"

fun match_M :: "string \<Rightarrow> nat option" where
  "match_M [a] = (if is_digit a then Some (digit_val a) else None)"
| "match_M [a, b] =
     (if is_digit a \<and> digit_val a \<le> 5 \<and> is_digit b
      then Some (10 * digit_val a + digit_val b) else None)"
| "match_M _ = None"

text \<open>\<open>datetime.strptime(s, "%H:%M").time()\<close>; a string that does not match raises \<open>ValueError\<close>.\<close>

definition strptime_HM :: "string \<Rightarrow> error + py_time" where
  "strptime_HM s =
     (case dropWhile (\<lambda>c. c \<noteq> CHR '':'') s of
        [] \<Rightarrow> Inl ValueError
      | _ # m_str \<Rightarrow>
          (case match_H (takeWhile (\<lambda>c. c \<noteq> CHR '':'') s) of
             None \<Rightarrow> Inl ValueError
           | Some h \<Rightarrow>
               (case match_M m_str of
                  None \<Rightarrow> Inl ValueError
                | Some m \<Rightarrow> Inr \<lparr>hour = h, minute = m, second = 0, microsecond = 0\<rparr>)))"

text \<open>
  \<open>ScheduleContextGenerator._parse_time_range\<close> (lines 27-32). Unpacking the split into two
  names raises \<open>ValueError\<close> unless there is exactly one dash.
\<close>

definition parse_time_range :: "string \<Rightarrow> error + (py_time \<times> py_time)" where
  "parse_time_range time_range =
     (case py_split (CHR ''-'') time_range of
        [start_str, end_str] \<Rightarrow>
          (case strptime_HM start_str of
             Inl e \<Rightarrow> Inl e
           | Inr start_time \<Rightarrow>
               (case strptime_HM end_str of
                  Inl e \<Rightarrow> Inl e
                | Inr end_time \<Rightarrow> Inr (start_time, end_time)))
      | _ \<Rightarrow> Inl ValueError)"

text \<open>
  A day's schedule is a dict from range string to activity; the loop of lines 46-54 visits
  its items in insertion order, so it is the list of its items. \<open>SCHEDULE\<close> (lines 16-24) maps
  the weekday to the day's schedule; the seven tables of \<open>core/schedules.py\<close> are not part
  of the sources and stay a parameter. The world of a call holds the wall clock (time of
  day and weekday), the table, and whatever other state the process has.
\<close>

type_synonym schedule = "(string \<times> string) list"

record world =
  now_time :: py_time
  now_weekday :: nat
  SCHEDULE :: "nat \<rightharpoonup> schedule"

text \<open>
  The loop of lines 46-56 over the items of the day's schedule, for the current time it
  compares with. Both branches of line 49 test \<open>start_time <= current_time <= end_time\<close>.
\<close>

fun scan_schedule :: "py_time \<Rightarrow> schedule \<Rightarrow> error + string option" where
  "scan_schedule current_time [] = Inr None"
| "scan_schedule current_time ((time_range, activity) # rest) =
     (case parse_time_range time_range of
        Inl e \<Rightarrow> Inl e
      | Inr (start_time, end_time) \<Rightarrow>
          (if time_gt start_time end_time then
             (if time_le start_time current_time \<and> time_le current_time end_time
              then Inr (Some activity)
              else scan_schedule current_time rest)
           else
             (if time_le start_time current_time \<and> time_le current_time end_time
              then Inr (Some activity)
              else scan_schedule current_time rest)))"

text \<open>
  Lines 41-42 call \<open>datetime.time()\<close> and \<open>datetime.weekday()\<close> on the class \<open>datetime\<close>
  itself (line 1 imports the class), not on an instant such as \<open>datetime.now()\<close>. Both are
  instance methods, and Python raises \<open>TypeError\<close> when one is called with no instance.
\<close>

definition datetime_time :: "error + py_time" where
  "datetime_time = Inl TypeError"

definition datetime_weekday :: "error + nat" where
  "datetime_weekday = Inl TypeError"

text \<open>\<open>ScheduleContextGenerator.get_current_activity\<close> (lines 34-56).\<close>

definition get_current_activity :: "'a world_scheme \<Rightarrow> error + string option" where
  "get_current_activity w =
     (case datetime_time of
        Inl e \<Rightarrow> Inl e
      | Inr current_time \<Rightarrow>
          (case datetime_weekday of
             Inl e \<Rightarrow> Inl e
           | Inr current_day \<Rightarrow>
               (let schedule = (case SCHEDULE w current_day of None \<Rightarrow> [] | Some s \<Rightarrow> s)
                in scan_schedule current_time schedule)))"

text \<open>\<open>get_schedule_for_day\<close> (lines 58-68).\<close>

definition get_schedule_for_day :: "'a world_scheme \<Rightarrow> nat \<Rightarrow> schedule" where
  "get_schedule_for_day w day = (case SCHEDULE w day of None \<Rightarrow> [] | Some s \<Rightarrow> s)"


section \<open>Speech synthesis: \<open>modules/speech/text_to_speech.py\<close>\<close>

text \<open>
  What a call does outside the process is recorded in a list of effects, in the order in
  which they happen: a request sent to ElevenLabs with its text, a request sent to Gemini
  with its prompt, a file written with its path and bytes, and the webhook entering lines
  65-70 (checkpointer, compilation and \<open>ainvoke\<close> of the graph) with the content of the message
  and the thread id.
\<close>

datatype json =
    JNull
  | JBool bool
  | JNum int
  | JStr string
  | JArr "json list"
  | JObj "(string \<times> json) list"

datatype effect =
    ElevenLabsConvert string
  | GeminiGenerateImages string
  | WriteFile string bytes
  | GraphInvoke json json

text \<open>
  The ElevenLabs client is a parameter: \<open>convert\<close> answers a text with the chunks of the
  audio stream, or \<open>None\<close> when creating the client, the request or reading the stream
  raises.

  \<open>TextToSpeech.synthesize\<close> (lines 31-70), as it runs on an instance (the constructor of
  line 15 calls \<open>_validate_env_vars\<close>, a name the class does not define; the method is
  modelled for itself). The two validations of lines 45-49 stand before the \<open>try\<close>, so
  their \<open>ValueError\<close> leaves the method as it is; every exception raised inside the \<open>try\<close>,
  the one of line 65 included, is raised again as \<open>TextToSpeechError\<close> (lines 69-70).
\<close>

definition synthesize ::
  "(string \<Rightarrow> bytes list option) \<Rightarrow> string \<Rightarrow> (error + bytes) \<times> effect list" where
  "synthesize convert text =
     (if py_strip text = [] then (Inl ValueError, [])
      else if length text > 5000 then (Inl ValueError, [])
      else
        (case convert text of
           None \<Rightarrow> (Inl TextToSpeechError, [ElevenLabsConvert text])
         | Some audio_generator \<Rightarrow>
             (let audio_bytes = concat audio_generator in
              if audio_bytes = [] then (Inl TextToSpeechError, [ElevenLabsConvert text])
              else (Inr audio_bytes, [ElevenLabsConvert text]))))"


section \<open>Image generation: \<open>modules/image/text_to_image.py\<close>\<close>

text \<open>
  The collaborators of \<open>generate_image\<close>: \<open>generate_images\<close> is the Gemini request together
  with the read of \<open>response.data[0].b64_json\<close> (\<open>None\<close> when any of it raises), \<open>b64decode\<close> is
  \<open>base64.b64decode\<close>, \<open>makedirs\<close> and \<open>write_file\<close> say whether creating the directory of the
  path and writing the file succeed.
\<close>

record image_env =
  generate_images :: "string \<Rightarrow> string option"
  b64decode :: "string \<Rightarrow> bytes option"
  makedirs :: "string \<Rightarrow> bool"
  write_file :: "string \<Rightarrow> bytes \<Rightarrow> bool"

text \<open>
  \<open>TextToImage.generate_image\<close> (lines 49-78). The blank prompt is rejected at lines 52-53,
  before the \<open>try\<close>. With an output path, line 73 calls \<open>self.logger\<close>, a \<open>Logger\<close>, which is
  not callable: after the file is written the \<open>TypeError\<close> is caught at line 77 like every
  other exception of the \<open>try\<close>.
\<close>

definition generate_image ::
  "image_env \<Rightarrow> string \<Rightarrow> string \<Rightarrow> (error + bytes) \<times> effect list" where
  "generate_image env prompt output_path =
     (if py_strip prompt = [] then (Inl ValueError, [])
      else
        (case generate_images env prompt of
           None \<Rightarrow> (Inl TextToImageError, [GeminiGenerateImages prompt])
         | Some b64_json \<Rightarrow>
             (case b64decode env b64_json of
                None \<Rightarrow> (Inl TextToImageError, [GeminiGenerateImages prompt])
              | Some image_data \<Rightarrow>
                  (if output_path \<noteq> [] then
                     (if makedirs env output_path \<and> write_file env output_path image_data
                      then (Inl TextToImageError,
                            [GeminiGenerateImages prompt, WriteFile output_path image_data])
                      else (Inl TextToImageError, [GeminiGenerateImages prompt]))
                   else (Inr image_data, [GeminiGenerateImages prompt])))))"


section \<open>The reply parser: \<open>graph/utils/helpers.py\<close>\<close>

text \<open>
  \<open>re.sub(r"\*.*?\*", "", text)\<close>. At an asterisk the pattern looks for the closing
  asterisk: \<open>.*?\<close> is lazy, so the nearest asterisk closes the span, and \<open>.\<close> does not match
  a line feed, so a line feed before the next asterisk makes the match fail at this
  position. \<open>find_close\<close> takes the text after the opening asterisk and returns what follows
  the closing one.
\<close>

fun find_close :: "string \<Rightarrow> string option" where
  "find_close [] = None"
| "find_close (c # cs) =
     (if c = CHR ''*'' then Some cs
      else if c = CHR 0x0A then None
      else find_close cs)"

text \<open>
  The substitution scans from the left: a match is deleted and the scan goes on behind it,
  a character where no match starts is kept.
\<close>

function re_sub_asterisk :: "string \<Rightarrow> string" where
  "re_sub_asterisk [] = []"
| "re_sub_asterisk (c # cs) =
     (if c = CHR ''*'' then
        (case find_close cs of
           Some rest \<Rightarrow> re_sub_asterisk rest
         | None \<Rightarrow> c # re_sub_asterisk cs)
      else c # re_sub_asterisk cs)"
  by pat_completeness auto
termination
proof (relation "measure length")
  show "wf (measure length)" by simp
next
  fix c :: char and cs rest :: string
  assume "c = CHR ''*''" and h: "find_close cs = Some rest"
  have "find_close xs = Some r \<Longrightarrow> length r < length xs" for xs r
    by (induction xs) (auto split: if_splits)
  from this [OF h] show "(rest, c # cs) \<in> measure length" by simp
qed simp_all

text \<open>\<open>remove_asterisk_content\<close> (lines 28-30).\<close>

definition remove_asterisk_content :: "string \<Rightarrow> string" where
  "remove_asterisk_content text = py_strip (re_sub_asterisk text)"

text \<open>
  \<open>AsteriskRemovalParser.parse\<close> (lines 33-35); \<open>StrOutputParser.parse\<close> returns its text as
  it is.
\<close>

definition StrOutputParser_parse :: "string \<Rightarrow> string" where
  "StrOutputParser_parse text = text"

definition AsteriskRemovalParser_parse :: "string \<Rightarrow> string" where
  "AsteriskRemovalParser_parse text = remove_asterisk_content (StrOutputParser_parse text)"

text \<open>
  A text has a span on one line when some asterisk is followed by another one with no
  line feed between them.
\<close>

fun has_span :: "string \<Rightarrow> bool" where
  "has_span [] = False"
| "has_span (c # cs) = ((c = CHR ''*'' \<and> find_close cs \<noteq> None) \<or> has_span cs)"


section \<open>The workflow graph: \<open>graph/state.py\<close> and \<open>graph/graph.py\<close>\<close>

text \<open>\<open>AICompanionState\<close> (\<open>state.py\<close>): \<open>MessagesState\<close> and the seven fields of lines 18-24.\<close>

datatype message = HumanMessage json | AIMessage json

record AICompanionState =
  messages :: "message list"
  summary :: string
  workflow :: string
  audio_buffer :: bytes
  image_path :: string
  current_activity :: string
  apply_activity :: bool
  memory_context :: string

text \<open>
  The node functions and the edge functions that \<open>graph.py\<close> imports (lines 5-18) are named
  here; their bodies (\<open>graph/nodes.py\<close>, \<open>graph/edges.py\<close>) are not part of the sources and
  are parameters of a run: a node function maps the state to the next state or raises, an
  edge function maps the state to the name of the next node.
\<close>

datatype node_fn =
    memory_extraction_node
  | router_node
  | context_injection_node
  | memory_injection_node
  | conversation_node
  | image_node
  | audio_node

datatype edge_fn = select_workflow | should_summarize_conversation

record graph_impl =
  run_node :: "node_fn \<Rightarrow> AICompanionState \<Rightarrow> error + AICompanionState"
  route :: "edge_fn \<Rightarrow> AICompanionState \<Rightarrow> string"

text \<open>
  The builder. \<open>StateGraph\<close> keeps the nodes by name, the edges, and the conditional edges
  (branches) by source; \<open>START\<close> and \<open>END\<close> are the reserved names of langgraph.
\<close>

definition START :: string where
  "START = ''__start__''"

definition END :: string where
  "END = ''__end__''"

record state_graph =
  nodes :: "(string \<times> node_fn) list"
  edges :: "(string \<times> string) list"
  branches :: "(string \<times> edge_fn) list"

definition StateGraph :: state_graph where
  "StateGraph = \<lparr>nodes = [], edges = [], branches = []\<rparr>"

definition add_node :: "string \<Rightarrow> node_fn \<Rightarrow> state_graph \<Rightarrow> state_graph" where
  "add_node name action g = g\<lparr>nodes := nodes g @ [(name, action)]\<rparr>"

definition add_edge :: "string \<Rightarrow> string \<Rightarrow> state_graph \<Rightarrow> state_graph" where
  "add_edge start_key end_key g = g\<lparr>edges := edges g @ [(start_key, end_key)]\<rparr>"

definition add_conditional_edges :: "string \<Rightarrow> edge_fn \<Rightarrow> state_graph \<Rightarrow> state_graph" where
  "add_conditional_edges source path g = g\<lparr>branches := branches g @ [(source, path)]\<rparr>"

text \<open>\<open>create_workflow_graph\<close> (lines 24-49), call by call.\<close>

definition create_workflow_graph :: state_graph where
  "create_workflow_graph =
     (let graph_builder = StateGraph;
          graph_builder = add_node ''memory_extraction_node'' memory_extraction_node graph_builder;
          graph_builder = add_node ''router_node'' router_node graph_builder;
          graph_builder = add_node ''context_injection_node'' context_injection_node graph_builder;
          graph_builder = add_node ''memory_injection_node'' memory_injection_node graph_builder;
          graph_builder = add_node ''conversation_node'' conversation_node graph_builder;
          graph_builder = add_node ''image_node'' image_node graph_builder;
          graph_builder = add_node ''audio_mode'' audio_node graph_builder;
          graph_builder = add_edge START ''memory_extraction_node'' graph_builder;
          graph_builder = add_edge ''memory_extraction_node'' ''router_node'' graph_builder;
          graph_builder = add_edge ''router_node'' ''context_injection_node'' graph_builder;
          graph_builder = add_edge ''context_injection_node'' ''memory_injection_node'' graph_builder;
          graph_builder = add_conditional_edges ''memory_injection_node'' select_workflow graph_builder;
          graph_builder =
            add_conditional_edges ''conversation_node'' should_summarize_conversation graph_builder;
          graph_builder =
            add_conditional_edges ''image_node'' should_summarize_conversation graph_builder;
          graph_builder =
            add_conditional_edges ''audio_node'' should_summarize_conversation graph_builder;
          graph_builder = add_edge ''summarize_conversation_node'' END graph_builder
      in graph_builder)"

text \<open>
  The names at which an edge or a conditional edge starts, and the names at which an edge
  ends (where a conditional edge ends is decided by its edge function at run time).
\<close>

definition edge_sources :: "state_graph \<Rightarrow> string list" where
  "edge_sources g = map fst (edges g) @ map fst (branches g)"

definition edge_targets :: "state_graph \<Rightarrow> string list" where
  "edge_targets g = map snd (edges g)"

definition node_names :: "state_graph \<Rightarrow> string list" where
  "node_names g = map fst (nodes g)"

text \<open>
  The check that \<open>compile\<close> runs first (langgraph's \<open>validate\<close>): every source is a node or
  \<open>START\<close>, \<open>START\<close> has an edge, every target is a node or \<open>END\<close>.
\<close>

definition validate :: "state_graph \<Rightarrow> bool" where
  "validate g =
     (list_all (\<lambda>source. source \<in> set (node_names g) \<or> source = START) (edge_sources g) \<and>
      START \<in> set (edge_sources g) \<and>
      list_all (\<lambda>target. target \<in> set (node_names g) \<or> target = END) (edge_targets g))"

definition compile :: "state_graph \<Rightarrow> error + state_graph" where
  "compile g = (if validate g then Inr g else Inl ValueError)"

text \<open>
  A run of a compiled graph whose nodes have one way out each, as this one has: from the
  node just executed follow its edge, or else its conditional edge, to the next node,
  execute it, and stop at \<open>END\<close> or at a node with no way out. A name that is no node raises;
  the number of steps is bounded by the recursion limit. The result is the final state or
  the exception, together with the names of the nodes whose functions were called, in
  order.
\<close>

definition successor ::
  "graph_impl \<Rightarrow> state_graph \<Rightarrow> string \<Rightarrow> AICompanionState \<Rightarrow> string option" where
  "successor impl g name st =
     (case map_of (edges g) name of
        Some target \<Rightarrow> Some target
      | None \<Rightarrow>
          (case map_of (branches g) name of
             Some path \<Rightarrow> Some (route impl path st)
           | None \<Rightarrow> None))"

fun run_from ::
  "graph_impl \<Rightarrow> state_graph \<Rightarrow> nat \<Rightarrow> string \<Rightarrow> AICompanionState \<Rightarrow> string list \<Rightarrow>
   (error + AICompanionState) \<times> string list" where
  "run_from impl g 0 name st executed = (Inl OtherError, executed)"
| "run_from impl g (Suc limit) name st executed =
     (case successor impl g name st of
        None \<Rightarrow> (Inr st, executed)
      | Some target \<Rightarrow>
          (if target = END then (Inr st, executed)
           else
             (case map_of (nodes g) target of
                None \<Rightarrow> (Inl ValueError, executed)
              | Some action \<Rightarrow>
                  (case run_node impl action st of
                     Inl e \<Rightarrow> (Inl e, executed @ [target])
                   | Inr st' \<Rightarrow> run_from impl g limit target st' (executed @ [target])))))"

definition recursion_limit :: nat where
  "recursion_limit = 25"

text \<open>
  One turn: line 51 compiles the graph that \<open>create_workflow_graph\<close> built, and the turn is
  a run of the compiled graph from \<open>START\<close>.
\<close>

definition run_turn ::
  "graph_impl \<Rightarrow> AICompanionState \<Rightarrow> (error + AICompanionState) \<times> string list" where
  "run_turn impl st =
     (case compile create_workflow_graph of
        Inl e \<Rightarrow> (Inl e, [])
      | Inr graph \<Rightarrow> run_from impl graph recursion_limit START st [])"

text \<open>
  The generation stages among the executed nodes: the nodes registered with the
  conversation, the image or the audio function.
\<close>

definition generation_stages :: "state_graph \<Rightarrow> string list \<Rightarrow> string list" where
  "generation_stages g executed =
     filter (\<lambda>name. map_of (nodes g) name \<in>
                      {Some conversation_node, Some image_node, Some audio_node})
       executed"






section \<open>The Telegram webhook: \<open>interfaces/telegram/telegram_response.py\<close>\<close>

text \<open>
  The request as the handler reads it: \<open>request.method\<close>, the header
  \<open>X-Telegram-Bot-Api-Secret-Token\<close> (\<open>None\<close> when absent) and the body as \<open>request.json()\<close>
  parses it (\<open>None\<close> when it raises).
\<close>

record request =
  request_method :: string
  x_telegram_bot_api_secret_token :: "string option"
  body :: "json option"

record response =
  content :: string
  status_code :: nat

text \<open>
  The surroundings of the handler: the secret of line 25 and the awaited helpers, each
  answering \<open>None\<close> when it raises: \<open>process_audio_message\<close> (lines 125-148),
  \<open>download_media\<close> (lines 104-122) and \<open>image_to_text.analyze_image\<close>.
\<close>

record telegram_env =
  SECRET_WEBHOOK_TOKEN :: "string option"
  process_audio_message :: "json \<Rightarrow> string option"
  download_media :: "json \<Rightarrow> bytes option"
  analyze_image :: "bytes \<Rightarrow> string option"

text \<open>
  Python's \<open>key in obj\<close>, \<open>obj[key]\<close> and \<open>obj[0]\<close> on a parsed JSON value, for a string
  \<open>key\<close>; \<open>None\<close> when the operation raises. The keys of a JSON object are strings, so
  \<open>obj[0]\<close> on an object raises \<open>KeyError\<close>.
\<close>

fun py_contains :: "string \<Rightarrow> json \<Rightarrow> bool option" where
  "py_contains key (JObj kvs) = Some (map_of kvs key \<noteq> None)"
| "py_contains key (JArr xs) = Some (List.member xs (JStr key))"
| "py_contains key (JStr s) = Some (sublist key s)"
| "py_contains key _ = None"

fun py_getitem :: "json \<Rightarrow> string \<Rightarrow> json option" where
  "py_getitem (JObj kvs) key = map_of kvs key"
| "py_getitem _ key = None"

fun py_getitem_0 :: "json \<Rightarrow> json option" where
  "py_getitem_0 (JArr (x # xs)) = Some x"
| "py_getitem_0 (JStr (c # cs)) = Some (JStr [c])"
| "py_getitem_0 _ = None"

text \<open>\<open>msg_dict.get("caption", "")\<close>: only a dict has \<open>get\<close>.\<close>

fun py_get_caption :: "json \<Rightarrow> json option" where
  "py_get_caption (JObj kvs) =
     (case map_of kvs ''caption'' of None \<Rightarrow> Some (JStr []) | Some v \<Rightarrow> Some v)"
| "py_get_caption _ = None"

text \<open>
  \<open>content += text\<close> for a string \<open>text\<close>: a string is extended, a list takes the characters
  one by one, everything else raises \<open>TypeError\<close>.
\<close>

fun py_iadd_str :: "json \<Rightarrow> string \<Rightarrow> json option" where
  "py_iadd_str (JStr s) text = Some (JStr (s @ text))"
| "py_iadd_str (JArr xs) text = Some (JArr (xs @ map (\<lambda>c. JStr [c]) text))"
| "py_iadd_str _ text = None"

text \<open>
  Lines 47-62: the content of the message. The inner \<open>try\<close> of lines 53-60 keeps the caption
  when the analysis or the concatenation raises.
\<close>

definition message_content :: "telegram_env \<Rightarrow> json \<Rightarrow> json option" where
  "message_content env msg_dict =
     (case py_contains ''audio'' msg_dict of
        None \<Rightarrow> None
      | Some True \<Rightarrow> map_option JStr (process_audio_message env msg_dict)
      | Some False \<Rightarrow>
          (case py_contains ''photo'' msg_dict of
             None \<Rightarrow> None
           | Some True \<Rightarrow>
               (case py_get_caption msg_dict of
                  None \<Rightarrow> None
                | Some caption \<Rightarrow>
                    (case Option.bind (py_getitem msg_dict ''photo'') (\<lambda>photo. py_getitem photo ''file_id'') of
                       None \<Rightarrow> None
                     | Some file_id \<Rightarrow>
                         (case download_media env file_id of
                            None \<Rightarrow> None
                          | Some image_bytes \<Rightarrow>
                              (case analyze_image env image_bytes of
                                 None \<Rightarrow> Some caption
                               | Some description \<Rightarrow>
                                   (case py_iadd_str caption (''[Image Analysis: '' @ description @ '']'') of
                                      None \<Rightarrow> Some caption
                                    | Some extended \<Rightarrow> Some extended)))))
           | Some False \<Rightarrow> py_getitem msg_dict ''text''))"

text \<open>
  The \<open>try\<close> of lines 39-97. Line 73 does not await \<open>graph.aget_state\<close>, so \<open>output_state\<close> is
  a coroutine and \<open>output_state.values\<close> (line 75) raises \<open>AttributeError\<close>: once the graph
  has been invoked the \<open>try\<close> ends in its handler, and lines 76-94 with their calls of
  \<open>send_response\<close> are not reached.
\<close>

definition process_update :: "telegram_env \<Rightarrow> request \<Rightarrow> (error + response) \<times> effect list" where
  "process_update env req =
     (case body req of
        None \<Rightarrow> (Inl OtherError, [])
      | Some update_payload \<Rightarrow>
          (case py_contains ''message'' update_payload of
             None \<Rightarrow> (Inl OtherError, [])
           | Some False \<Rightarrow> (Inr \<lparr>content = ''Unknown event type'', status_code = 400\<rparr>, [])
           | Some True \<Rightarrow>
               (case Option.bind (py_getitem update_payload ''message'') py_getitem_0 of
                  None \<Rightarrow> (Inl OtherError, [])
                | Some msg_dict \<Rightarrow>
                    (case Option.bind (py_getitem msg_dict ''from'') (\<lambda>sender. py_getitem sender ''id'') of
                       None \<Rightarrow> (Inl OtherError, [])
                     | Some session_id \<Rightarrow>
                         (case message_content env msg_dict of
                            None \<Rightarrow> (Inl OtherError, [])
                          | Some content' \<Rightarrow> (Inl OtherError, [GraphInvoke content' session_id]))))))"

text \<open>
  \<open>telegram_handler\<close> (lines 27-101). The route of line 27 accepts \<open>POST\<close> only. Lines 34-37
  answer every \<open>POST\<close>: 403 on a wrong secret, 200 otherwise; both return before the \<open>try\<close>.
  The handler of lines 99-101 turns every exception of the \<open>try\<close> into the answer 500.
\<close>

definition telegram_handler :: "telegram_env \<Rightarrow> request \<Rightarrow> response \<times> effect list" where
  "telegram_handler env req =
     (if request_method req = ''POST'' then
        (if x_telegram_bot_api_secret_token req \<noteq> SECRET_WEBHOOK_TOKEN env
         then (\<lparr>content = ''Token mismatch'', status_code = 403\<rparr>, [])
         else (\<lparr>content = ''Received Telegram data'', status_code = 200\<rparr>, []))
      else
        (case process_update env req of
           (Inl e, effects) \<Rightarrow> (\<lparr>content = ''Internal server error'', status_code = 500\<rparr>, effects)
         | (Inr resp, effects) \<Rightarrow> (resp, effects)))"


section \<open>Lemmas\<close>

lemma dropWhile_all_iff:
  "(\<forall>x\<in>set (dropWhile P xs). P x) \<longleftrightarrow> (\<forall>x\<in>set xs. P x)"
  by (induction xs) auto

lemma py_strip_blank: "py_strip s = [] \<longleftrightarrow> list_all py_isspace s"
  by (simp add: py_strip_def list_all_iff dropWhile_eq_Nil_conv dropWhile_all_iff)

lemma py_strip_infix: "\<exists>a b. t = a @ py_strip t @ b"
proof -
  let ?u = "dropWhile py_isspace t"
  have "t = takeWhile py_isspace t @ ?u" by simp
  moreover have "?u = py_strip t @ rev (takeWhile py_isspace (rev ?u))"
  proof -
    have "rev (takeWhile py_isspace (rev ?u) @ dropWhile py_isspace (rev ?u)) = ?u"
      by (simp only: takeWhile_dropWhile_id rev_rev_ident)
    then have "rev (dropWhile py_isspace (rev ?u)) @ rev (takeWhile py_isspace (rev ?u)) = ?u"
      by (simp only: rev_append)
    then show ?thesis by (simp only: py_strip_def)
  qed
  ultimately have "t = takeWhile py_isspace t @ py_strip t @ rev (takeWhile py_isspace (rev ?u))"
    by simp
  then show ?thesis by blast
qed

subsection \<open>The scan of a schedule\<close>

lemma time_le_refl: "time_le a a"
  by (simp add: time_le_def)

lemma time_gt_iff: "time_gt a b \<longleftrightarrow> \<not> time_le a b"
  by (simp add: time_gt_def time_le_def not_le)

lemma time_le_trans: "time_le a b \<Longrightarrow> time_le b c \<Longrightarrow> time_le a c"
  unfolding time_le_def by (rule order_trans)

lemma scan_schedule_append:
  "scan_schedule t (earlier @ later) =
     (case scan_schedule t earlier of Inr None \<Rightarrow> scan_schedule t later | r \<Rightarrow> r)"
  by (induction earlier) (auto split: sum.splits option.splits prod.splits)

text \<open>
  A range whose start lies after its end is skipped at every time of day: no time is at
  once at or after the start and at or before the end.
\<close>

lemma scan_schedule_skips_wrapping:
  assumes "parse_time_range time_range = Inr (start_time, end_time)"
    and "time_gt start_time end_time"
  shows "scan_schedule t ((time_range, activity) # rest) = scan_schedule t rest"
proof -
  have "\<not> (time_le start_time t \<and> time_le t end_time)"
    using assms(2) time_le_trans [of start_time t end_time] by (auto simp: time_gt_iff)
  with assms show ?thesis by auto
qed

text \<open>
  The bounds of a range that does not wrap are inclusive: at a time equal to its start or
  to its end the scan answers this item's activity, unless an item before it already
  decides the scan.
\<close>

lemma scan_schedule_boundary:
  assumes "parse_time_range time_range = Inr (start_time, end_time)"
    and "time_le start_time end_time"
    and "current_time = start_time \<or> current_time = end_time"
  shows "scan_schedule current_time (earlier @ (time_range, activity) # later) =
           (case scan_schedule current_time earlier of
              Inr None \<Rightarrow> Inr (Some activity)
            | decided \<Rightarrow> decided)"
proof -
  have inside: "time_le start_time current_time \<and> time_le current_time end_time"
    using assms(2,3) by (auto simp: time_le_refl)
  have hit: "scan_schedule current_time ((time_range, activity) # later) = Inr (Some activity)"
    using assms(1) inside by simp
  show ?thesis
    by (simp add: scan_schedule_append hit del: scan_schedule.simps
        split: sum.splits option.splits)
qed

subsection \<open>The substitution\<close>

lemma find_close_Some_iff:
  "find_close cs = Some r \<longleftrightarrow>
     (\<exists>mid. cs = mid @ CHR ''*'' # r \<and> CHR ''*'' \<notin> set mid \<and> CHR 0x0A \<notin> set mid)"
proof (induction cs)
  case Nil
  then show ?case by simp
next
  case (Cons c cs)
  show ?case
  proof (cases "c = CHR ''*''")
    case True
    then show ?thesis
      by (auto simp: Cons_eq_append_conv)
  next
    case False
    then show ?thesis
      using Cons.IH by (auto simp: Cons_eq_append_conv)
  qed
qed

lemma find_close_line:
  "CHR 0x0A \<notin> set mid \<Longrightarrow> find_close (mid @ CHR ''*'' # post) \<noteq> None"
  by (induction mid) auto

lemma find_close_append:
  "CHR ''*'' \<notin> set mid \<Longrightarrow> CHR 0x0A \<notin> set mid \<Longrightarrow>
   find_close (mid @ CHR ''*'' # post) = Some post"
  by (induction mid) auto

lemma has_span_iff:
  "has_span t \<longleftrightarrow>
     (\<exists>pre mid post. t = pre @ CHR ''*'' # mid @ CHR ''*'' # post \<and> CHR 0x0A \<notin> set mid)"
proof (induction t)
  case Nil
  then show ?case by simp
next
  case (Cons c cs)
  show ?case
  proof
    assume "has_span (c # cs)"
    then consider (here) "c = CHR ''*''" "find_close cs \<noteq> None" | (later) "has_span cs"
      by auto
    then show "\<exists>pre mid post.
        c # cs = pre @ CHR ''*'' # mid @ CHR ''*'' # post \<and> CHR 0x0A \<notin> set mid"
    proof cases
      case here
      then obtain r where "find_close cs = Some r" by auto
      then obtain mid where "cs = mid @ CHR ''*'' # r" "CHR 0x0A \<notin> set mid"
        by (auto simp: find_close_Some_iff)
      with here(1) have "c # cs = [] @ CHR ''*'' # mid @ CHR ''*'' # r \<and> CHR 0x0A \<notin> set mid"
        by simp
      then show ?thesis by blast
    next
      case later
      then obtain pre mid post where
        "cs = pre @ CHR ''*'' # mid @ CHR ''*'' # post" "CHR 0x0A \<notin> set mid"
        using Cons.IH by blast
      then have "c # cs = (c # pre) @ CHR ''*'' # mid @ CHR ''*'' # post \<and> CHR 0x0A \<notin> set mid"
        by simp
      then show ?thesis by blast
    qed
  next
    assume "\<exists>pre mid post.
        c # cs = pre @ CHR ''*'' # mid @ CHR ''*'' # post \<and> CHR 0x0A \<notin> set mid"
    then obtain pre mid post where
      eq: "c # cs = pre @ CHR ''*'' # mid @ CHR ''*'' # post" and line: "CHR 0x0A \<notin> set mid"
      by blast
    show "has_span (c # cs)"
    proof (cases pre)
      case Nil
      with eq have "c = CHR ''*''" "cs = mid @ CHR ''*'' # post" by simp_all
      then show ?thesis using find_close_line [OF line] by simp
    next
      case (Cons p ps)
      with eq have "cs = ps @ CHR ''*'' # mid @ CHR ''*'' # post" by simp
      with line have "has_span cs" using Cons.IH by blast
      then show ?thesis by simp
    qed
  qed
qed

lemma find_close_re_sub:
  "find_close cs = None \<Longrightarrow> find_close (re_sub_asterisk cs) = None"
  by (induction cs) (auto split: if_splits)

lemma re_sub_no_span: "\<not> has_span (re_sub_asterisk t)"
  by (induction t rule: re_sub_asterisk.induct)
    (auto simp: find_close_re_sub split: option.splits)

lemma py_strip_no_span: "\<not> has_span t \<Longrightarrow> \<not> has_span (py_strip t)"
proof
  assume no: "\<not> has_span t" and "has_span (py_strip t)"
  then obtain pre mid post where
    s: "py_strip t = pre @ CHR ''*'' # mid @ CHR ''*'' # post" and line: "CHR 0x0A \<notin> set mid"
    by (auto simp: has_span_iff)
  obtain a b where "t = a @ py_strip t @ b" using py_strip_infix by blast
  with s have "t = (a @ pre) @ CHR ''*'' # mid @ CHR ''*'' # (post @ b)" by simp
  with line have "has_span t" unfolding has_span_iff by blast
  with no show False by simp
qed

lemma re_sub_plain_prefix:
  "CHR ''*'' \<notin> set pre \<Longrightarrow> re_sub_asterisk (pre @ t) = pre @ re_sub_asterisk t"
  by (induction pre) auto

lemma re_sub_plain: "CHR ''*'' \<notin> set t \<Longrightarrow> re_sub_asterisk t = t"
  using re_sub_plain_prefix [of t "[]"] by simp

text \<open>A reply of the parser holds no span on one line.\<close>

lemma parser_no_line_span: "\<not> has_span (AsteriskRemovalParser_parse text)"
  by (simp add: AsteriskRemovalParser_parse_def StrOutputParser_parse_def
      remove_asterisk_content_def py_strip_no_span re_sub_no_span)

subsection \<open>Runs of the graph as it is built\<close>

lemmas graph_defs =
  create_workflow_graph_def StateGraph_def add_node_def add_edge_def add_conditional_edges_def
  START_def END_def

text \<open>
  Leaving the check of \<open>compile\<close> aside, a run walks the graph of \<open>create_workflow_graph\<close>
  up to the branch after memory injection. Sent to the conversation node and then to \<open>END\<close>
  it ends with that one generation stage executed; sent to \<open>audio_node\<close> it stops with no
  generation stage executed, because the audio function is registered under the name
  \<open>audio_mode\<close>.
\<close>

lemma run_from_conversation:
  assumes "run_node impl memory_extraction_node st = Inr st1"
    and "run_node impl router_node st1 = Inr st2"
    and "run_node impl context_injection_node st2 = Inr st3"
    and "run_node impl memory_injection_node st3 = Inr st4"
    and "route impl select_workflow st4 = ''conversation_node''"
    and "run_node impl conversation_node st4 = Inr st5"
    and "route impl should_summarize_conversation st5 = END"
  shows "run_from impl create_workflow_graph recursion_limit START st [] =
           (Inr st5, [''memory_extraction_node'', ''router_node'', ''context_injection_node'',
                      ''memory_injection_node'', ''conversation_node''])"
  using assms
  by (simp add: recursion_limit_def eval_nat_numeral successor_def graph_defs)

lemma generation_stages_conversation:
  "generation_stages create_workflow_graph
     [''memory_extraction_node'', ''router_node'', ''context_injection_node'',
      ''memory_injection_node'', ''conversation_node''] = [''conversation_node'']"
  by (simp add: generation_stages_def graph_defs)

lemma run_from_audio_unregistered:
  assumes "run_node impl memory_extraction_node st = Inr st1"
    and "run_node impl router_node st1 = Inr st2"
    and "run_node impl context_injection_node st2 = Inr st3"
    and "run_node impl memory_injection_node st3 = Inr st4"
    and "route impl select_workflow st4 = ''audio_node''"
  shows "run_from impl create_workflow_graph recursion_limit START st [] =
           (Inl ValueError, [''memory_extraction_node'', ''router_node'',
                             ''context_injection_node'', ''memory_injection_node''])"
  using assms
  by (simp add: recursion_limit_def eval_nat_numeral successor_def graph_defs)

lemma generation_stages_audio_unregistered:
  "generation_stages create_workflow_graph
     [''memory_extraction_node'', ''router_node'', ''context_injection_node'',
      ''memory_injection_node''] = []"
  by (simp add: generation_stages_def graph_defs)


text \<open>
  With the check of \<open>compile\<close> (line 51) no run starts: the graph is rejected for its edges
  from names that are no nodes.
\<close>

lemma run_turn_compile_fails: "run_turn impl st = (Inl ValueError, [])"
  by (simp add: run_turn_def compile_def validate_def edge_sources_def edge_targets_def
      node_names_def graph_defs)









section \<open>The claims\<close>



text \<open>
  C2. The spec has the range \<open>23:00-01:00\<close> match 23:30 and 00:30. The range parses to a
  start after its end, and the scan of lines 46-56 returns none at 23:30 and at 00:30: the
  branch of line 50 repeats the test of line 53. The method itself raises \<open>TypeError\<close> at
  line 41 before it reaches the scan.
\<close>

theorem wrapping_range_never_matches:
  "parse_time_range ''23:00-01:00'' =
     Inr (\<lparr>hour = 23, minute = 0, second = 0, microsecond = 0\<rparr>,
          \<lparr>hour = 1, minute = 0, second = 0, microsecond = 0\<rparr>) \<and>
   scan_schedule \<lparr>hour = 23, minute = 30, second = 0, microsecond = 0\<rparr>
     [(''23:00-01:00'', ''sleeping'')] = Inr None \<and>
   scan_schedule \<lparr>hour = 0, minute = 30, second = 0, microsecond = 0\<rparr>
     [(''23:00-01:00'', ''sleeping'')] = Inr None \<and>
   get_current_activity
     \<lparr>now_time = \<lparr>hour = 23, minute = 30, second = 0, microsecond = 0\<rparr>, now_weekday = 0,
      SCHEDULE = [0 \<mapsto> [(''23:00-01:00'', ''sleeping'')]]\<rparr> = Inl TypeError"
  by (simp add: get_current_activity_def datetime_time_def parse_time_range_def strptime_HM_def
      time_gt_def time_le_def time_key_def is_digit_def digit_val_def)

text \<open>
  C3. The spec has a time equal to the start or to the end of a range resolve to that
  range's activity, not to none. For the range \<open>23:00-01:00\<close> the scan of lines 46-56
  answers none at 23:00 and at 01:00: line 50 tests a wrapping range with the test of line
  53. The method itself resolves no time at all, the start of \<open>06:00-07:00\<close> included: it
  raises \<open>TypeError\<close> at line 41.
\<close>

theorem boundary_not_resolved:
  "parse_time_range ''23:00-01:00'' =
     Inr (\<lparr>hour = 23, minute = 0, second = 0, microsecond = 0\<rparr>,
          \<lparr>hour = 1, minute = 0, second = 0, microsecond = 0\<rparr>) \<and>
   scan_schedule \<lparr>hour = 23, minute = 0, second = 0, microsecond = 0\<rparr>
     [(''23:00-01:00'', ''sleeping'')] = Inr None \<and>
   scan_schedule \<lparr>hour = 1, minute = 0, second = 0, microsecond = 0\<rparr>
     [(''23:00-01:00'', ''sleeping'')] = Inr None \<and>
   get_current_activity
     \<lparr>now_time = \<lparr>hour = 23, minute = 0, second = 0, microsecond = 0\<rparr>, now_weekday = 0,
      SCHEDULE = [0 \<mapsto> [(''23:00-01:00'', ''sleeping'')]]\<rparr> = Inl TypeError \<and>
   get_current_activity
     \<lparr>now_time = \<lparr>hour = 6, minute = 0, second = 0, microsecond = 0\<rparr>, now_weekday = 0,
      SCHEDULE = [0 \<mapsto> [(''06:00-07:00'', ''jogging'')]]\<rparr> = Inl TypeError"
  by (simp add: get_current_activity_def datetime_time_def parse_time_range_def strptime_HM_def
      time_gt_def time_le_def time_key_def is_digit_def digit_val_def)

text \<open>
  C4, as amended. A text of more than 5000 characters makes \<open>synthesize\<close> raise
  \<open>ValueError\<close> with no request sent and nothing truncated; a text of exactly 5000
  characters that is not blank passes both validations and is sent whole.
\<close>

theorem synthesize_length_limit:
  "(5000 < length text \<longrightarrow> synthesize convert text = (Inl ValueError, [])) \<and>
   (length text = 5000 \<and> \<not> list_all py_isspace text \<longrightarrow>
      snd (synthesize convert text) = [ElevenLabsConvert text] \<and>
      fst (synthesize convert text) \<noteq> Inl ValueError)"
  by (auto simp: synthesize_def py_strip_blank Let_def split: option.splits)

theorem synthesize_length_limit_witness:
  "5000 < length (replicate 5001 (CHR ''a'')) \<and>
   synthesize (\<lambda>t. Some [[1]]) (replicate 5001 (CHR ''a'')) = (Inl ValueError, []) \<and>
   length (replicate 5000 (CHR ''a'')) = 5000 \<and>
   \<not> list_all py_isspace (replicate 5000 (CHR ''a'')) \<and>
   snd (synthesize (\<lambda>t. Some [[1]]) (replicate 5000 (CHR ''a''))) =
     [ElevenLabsConvert (replicate 5000 (CHR ''a''))] \<and>
   fst (synthesize (\<lambda>t. Some [[1]]) (replicate 5000 (CHR ''a''))) \<noteq> Inl ValueError"
  using synthesize_length_limit [of "replicate 5001 (CHR ''a'')" "\<lambda>t. Some [[1]]"]
    synthesize_length_limit [of "replicate 5000 (CHR ''a'')" "\<lambda>t. Some [[1]]"]
  by (simp add: list_all_iff py_isspace_def)

text \<open>
  The claim as the spec states it fails at a text of 5001 letters: the error is
  \<open>ValueError\<close>, not \<open>TextToSpeechError\<close>.
\<close>

theorem synthesize_over_length_counterexample:
  "synthesize (\<lambda>t. Some [[1]]) (replicate 5001 (CHR ''a'')) = (Inl ValueError, []) \<and>
   fst (synthesize (\<lambda>t. Some [[1]]) (replicate 5001 (CHR ''a''))) \<noteq> Inl TextToSpeechError"
  by (simp add: synthesize_def py_strip_blank list_all_iff py_isspace_def)

text \<open>
  C5. A text that is empty or consists of white space only makes \<open>synthesize\<close> raise the
  validation error of line 46 (the spec's ValidationError is Python's \<open>ValueError\<close>), and
  no request has been sent to the speech service.
\<close>

theorem synthesize_blank_rejected:
  "list_all py_isspace text \<Longrightarrow> synthesize convert text = (Inl ValueError, [])"
  by (simp add: synthesize_def py_strip_blank)

theorem synthesize_blank_rejected_witness:
  "list_all py_isspace [] \<and> synthesize (\<lambda>t. Some [[1]]) [] = (Inl ValueError, []) \<and>
   list_all py_isspace [CHR '' '', CHR 0x09, CHR 0x0A] \<and>
   synthesize (\<lambda>t. Some [[1]]) [CHR '' '', CHR 0x09, CHR 0x0A] = (Inl ValueError, [])"
  using synthesize_blank_rejected [of "[]" "\<lambda>t. Some [[1]]"]
    synthesize_blank_rejected [of "[CHR '' '', CHR 0x09, CHR 0x0A]" "\<lambda>t. Some [[1]]"]
  by (simp add: py_isspace_def)

text \<open>
  C6. A blank prompt makes \<open>generate_image\<close> raise before any request is sent to the image
  service. For a prompt that is not blank, a failure of the request ends in
  \<open>TextToImageError\<close>, and so does every other failure of the method.
\<close>

theorem generate_image_blank_and_failure:
  "(list_all py_isspace prompt \<longrightarrow>
      generate_image env prompt output_path = (Inl ValueError, [])) \<and>
   (\<not> list_all py_isspace prompt \<and> generate_images env prompt = None \<longrightarrow>
      generate_image env prompt output_path =
        (Inl TextToImageError, [GeminiGenerateImages prompt])) \<and>
   (\<not> list_all py_isspace prompt \<and> fst (generate_image env prompt output_path) = Inl e \<longrightarrow>
      e = TextToImageError)"
  by (auto simp: generate_image_def py_strip_blank split: option.splits if_splits)

theorem generate_image_blank_and_failure_witness:
  "list_all py_isspace '' '' \<and>
   generate_image \<lparr>generate_images = \<lambda>p. None, b64decode = \<lambda>s. None,
                   makedirs = \<lambda>p. True, write_file = \<lambda>p d. True\<rparr> '' '' [] =
     (Inl ValueError, []) \<and>
   \<not> list_all py_isspace ''a cat'' \<and>
   generate_images \<lparr>generate_images = \<lambda>p. None, b64decode = \<lambda>s. None,
                    makedirs = \<lambda>p. True, write_file = \<lambda>p d. True\<rparr> ''a cat'' = None \<and>
   generate_image \<lparr>generate_images = \<lambda>p. None, b64decode = \<lambda>s. None,
                   makedirs = \<lambda>p. True, write_file = \<lambda>p d. True\<rparr> ''a cat'' [] =
     (Inl TextToImageError, [GeminiGenerateImages ''a cat''])"
  using generate_image_blank_and_failure [of "'' ''"
      "\<lparr>generate_images = \<lambda>p. None, b64decode = \<lambda>s. None,
        makedirs = \<lambda>p. True, write_file = \<lambda>p d. True\<rparr>" "[]" TextToImageError]
    generate_image_blank_and_failure [of "''a cat''"
      "\<lparr>generate_images = \<lambda>p. None, b64decode = \<lambda>s. None,
        makedirs = \<lambda>p. True, write_file = \<lambda>p d. True\<rparr>" "[]" TextToImageError]
  by (simp add: py_isspace_def)

text \<open>
  C7. The spec has the parser remove every span that a pair of asterisks delimits, and
  the docstring of line 29 says the same. A span that runs over a line break stays: the
  text \<open>*a\<close>, line feed, \<open>b*\<close> comes back with both asterisks and everything between them,
  because the pattern of line 30 has \<open>.\<close> match no line feed.
\<close>

theorem parser_keeps_multiline_span:
  "AsteriskRemovalParser_parse (''*a'' @ [CHR 0x0A] @ ''b*'') = ''*a'' @ [CHR 0x0A] @ ''b*''"
  by (simp add: AsteriskRemovalParser_parse_def StrOutputParser_parse_def
      remove_asterisk_content_def py_strip_def py_isspace_def)

text \<open>
  C8. Two calls of the Activity Context Provider in worlds that agree on the wall clock
  (time of day and weekday) and on the schedule table, and differ in anything else, give
  the same result; so does the scan of the day's schedule at that time.
\<close>

theorem get_current_activity_pure:
  fixes w :: "'a world_scheme" and w' :: "'b world_scheme"
  assumes "now_time w = now_time w'"
    and "now_weekday w = now_weekday w'"
    and "SCHEDULE w = SCHEDULE w'"
  shows "get_current_activity w = get_current_activity w' \<and>
         scan_schedule (now_time w) (get_schedule_for_day w (now_weekday w)) =
         scan_schedule (now_time w') (get_schedule_for_day w' (now_weekday w'))"
  using assms
  by (simp add: get_current_activity_def get_schedule_for_day_def cong: sum.case_cong)

theorem get_current_activity_pure_witness:
  "get_current_activity
     \<lparr>now_time = \<lparr>hour = 6, minute = 30, second = 12, microsecond = 5\<rparr>, now_weekday = 2,
      SCHEDULE = [2 \<mapsto> [(''06:00-07:00'', ''jogging'')]], \<dots> = (1::nat)\<rparr> =
   get_current_activity
     \<lparr>now_time = \<lparr>hour = 6, minute = 30, second = 12, microsecond = 5\<rparr>, now_weekday = 2,
      SCHEDULE = [2 \<mapsto> [(''06:00-07:00'', ''jogging'')]], \<dots> = ''other state''\<rparr> \<and>
   scan_schedule \<lparr>hour = 6, minute = 30, second = 12, microsecond = 5\<rparr>
     (get_schedule_for_day
        \<lparr>now_time = \<lparr>hour = 6, minute = 30, second = 12, microsecond = 5\<rparr>, now_weekday = 2,
         SCHEDULE = [2 \<mapsto> [(''06:00-07:00'', ''jogging'')]], \<dots> = ''other state''\<rparr> 2) =
     Inr (Some ''jogging'')"
  using get_current_activity_pure [of
     "\<lparr>now_time = \<lparr>hour = 6, minute = 30, second = 12, microsecond = 5\<rparr>, now_weekday = 2,
      SCHEDULE = [2 \<mapsto> [(''06:00-07:00'', ''jogging'')]], \<dots> = (1::nat)\<rparr>"
     "\<lparr>now_time = \<lparr>hour = 6, minute = 30, second = 12, microsecond = 5\<rparr>, now_weekday = 2,
      SCHEDULE = [2 \<mapsto> [(''06:00-07:00'', ''jogging'')]], \<dots> = ''other state''\<rparr>"]
  by (simp add: get_schedule_for_day_def parse_time_range_def strptime_HM_def time_gt_def
      time_le_def time_key_def is_digit_def digit_val_def)

text \<open>
  C9. The spec has the handler run the graph on the message of an authenticated \<open>POST\<close>
  update and send the output back. For every such request, whatever its body, the handler
  answers 200 at line 37 with no effect at all: the graph is not invoked and nothing is
  sent.
\<close>

theorem telegram_handler_post_returns_early:
  "telegram_handler env
     \<lparr>request_method = ''POST'', x_telegram_bot_api_secret_token = SECRET_WEBHOOK_TOKEN env,
      body = update\<rparr> =
   (\<lparr>content = ''Received Telegram data'', status_code = 200\<rparr>, [])"
  by (simp add: telegram_handler_def)

text \<open>
  C10. The claim has every name that an edge or a conditional edge refers to registered
  as a node. In the graph of \<open>create_workflow_graph\<close> the conditional edge of line 45 starts
  at \<open>audio_node\<close> and the edge of line 47 at \<open>summarize_conversation_node\<close>; neither is a
  node (line 33 registers \<open>audio_mode\<close>, and no line registers a summarize node), so the
  check fails and \<open>compile\<close> raises.
\<close>

theorem create_workflow_graph_unregistered_nodes:
  "''audio_node'' \<in> set (edge_sources create_workflow_graph) \<and>
   ''audio_node'' \<notin> set (node_names create_workflow_graph) \<and>
   ''summarize_conversation_node'' \<in> set (edge_sources create_workflow_graph) \<and>
   ''summarize_conversation_node'' \<notin> set (node_names create_workflow_graph) \<and>
   \<not> validate create_workflow_graph \<and>
   compile create_workflow_graph = Inl ValueError"
  by (simp add: compile_def validate_def edge_sources_def edge_targets_def node_names_def
      graph_defs)

end
